theory Spec2Isabelle
  imports Complex_Main
begin

section \<open>JavaScript values as the handlers see them\<close>

text \<open>
  The server (src/server/server.js) receives its request body from \<^verbatim>\<open>express.json()\<close>,
  so every field of a request is a value built by \<^verbatim>\<open>JSON.parse\<close>: null, a boolean, a
  number, a string, an array or a plain object; a key that is missing reads as
  \<^verbatim>\<open>undefined\<close>.

  A JavaScript number is an IEEE double. The code never does arithmetic on one: it tests
  for NaN, tests truthiness and passes the number on. So a number is modelled by the
  classes those tests distinguish. Every finite double is a rational, hence every double
  is a value of this type; \<open>Finite 0\<close> is \<open>+0\<close>.
\<close>

datatype number = NaN | PosInfinity | NegInfinity | NegZero | Finite rat

datatype jsval =
    Undefined
  | Null
  | Bool bool
  | Num number
  | Str string
  | Arr "jsval list"
  | Obj "(string \<times> jsval) list"

text \<open>
  An \<open>Obj\<close> lists the own properties of a plain object (prototype \<^verbatim>\<open>Object.prototype\<close>),
  the first binding of a key being its value. A thrown value is an \<^verbatim>\<open>Error\<close> instance,
  given by its \<^verbatim>\<open>name\<close> and \<^verbatim>\<open>message\<close>.
\<close>

datatype jserror = JSError string string

text \<open>
  Two built-ins of the engine depend on the decimal notation of doubles and are taken as
  parameters: \<^verbatim>\<open>StringToNumber\<close> (the string case of \<^verbatim>\<open>Number(x)\<close>) and
  \<^verbatim>\<open>Number::toString\<close> (the number case of \<^verbatim>\<open>String(x)\<close>).
\<close>

record engine =
  StringToNumber :: "string \<Rightarrow> number"
  NumberToString :: "number \<Rightarrow> string"

text \<open>\<^verbatim>\<open>if (x)\<close>, \<^verbatim>\<open>x || y\<close>, \<^verbatim>\<open>!x\<close>: the abstract operation ToBoolean.\<close>

fun ToBoolean :: "jsval \<Rightarrow> bool" where
  "ToBoolean Undefined = False"
| "ToBoolean Null = False"
| "ToBoolean (Bool b) = b"
| "ToBoolean (Num n) = (n \<noteq> NaN \<and> n \<noteq> Finite 0 \<and> n \<noteq> NegZero)"
| "ToBoolean (Str s) = (s \<noteq> [])"
| "ToBoolean (Arr xs) = True"
| "ToBoolean (Obj ps) = True"

fun typeof :: "jsval \<Rightarrow> string" where
  "typeof Undefined = ''undefined''"
| "typeof Null = ''object''"
| "typeof (Bool b) = ''boolean''"
| "typeof (Num n) = ''number''"
| "typeof (Str s) = ''string''"
| "typeof (Arr xs) = ''object''"
| "typeof (Obj ps) = ''object''"

text \<open>
  Reading a property \<^verbatim>\<open>k\<close> of a value, as the destructuring of line 79 does. Only a
  plain object can own one of the six keys the handler reads; arrays, strings, numbers
  and booleans have no property of those names, and neither has \<^verbatim>\<open>Object.prototype\<close>.
\<close>

fun Get :: "jsval \<Rightarrow> string \<Rightarrow> jsval" where
  "Get (Obj ps) k = (case map_of ps k of None \<Rightarrow> Undefined | Some v \<Rightarrow> v)"
| "Get v k = Undefined"

text \<open>
  The error of OrdinaryToPrimitive when neither \<^verbatim>\<open>valueOf\<close> nor \<^verbatim>\<open>toString\<close> gives a
  primitive.
\<close>

definition TypeError_toPrimitive :: jserror where
  "TypeError_toPrimitive = JSError ''TypeError'' ''Cannot convert object to primitive value''"

text \<open>
  ToString. An array is joined with commas (\<^verbatim>\<open>Array.prototype.join\<close>: an undefined or
  null element gives the empty string). A plain object gives \<^verbatim>\<open>[object Object]\<close> through
  the inherited \<^verbatim>\<open>toString\<close>, unless it owns a property \<^verbatim>\<open>toString\<close>: a value parsed
  from JSON is never callable, so the own property hides the inherited method, the
  inherited or own \<^verbatim>\<open>valueOf\<close> gives no primitive either, and the conversion throws.
\<close>

fun ToString :: "engine \<Rightarrow> jsval \<Rightarrow> jserror + string"
and join :: "engine \<Rightarrow> jsval list \<Rightarrow> jserror + string" where
  "ToString J Undefined = Inr ''undefined''"
| "ToString J Null = Inr ''null''"
| "ToString J (Bool b) = Inr (if b then ''true'' else ''false'')"
| "ToString J (Num n) = Inr (NumberToString J n)"
| "ToString J (Str s) = Inr s"
| "ToString J (Arr xs) = join J xs"
| "ToString J (Obj ps) =
     (if ''toString'' \<in> set (map fst ps) then Inl TypeError_toPrimitive
      else Inr ''[object Object]'')"
| "join J [] = Inr []"
| "join J (x # xs) =
     (case (if x = Undefined \<or> x = Null then Inr [] else ToString J x) of
        Inl e \<Rightarrow> Inl e
      | Inr s \<Rightarrow>
          (if xs = [] then Inr s
           else (case join J xs of Inl e \<Rightarrow> Inl e | Inr r \<Rightarrow> Inr (s @ '','' @ r))))"

text \<open>
  \<^verbatim>\<open>Number(x)\<close>: ToNumber. An array or object is first converted to a primitive, which
  for a value parsed from JSON is the string above (the inherited \<^verbatim>\<open>valueOf\<close> returns
  the object itself, an own \<^verbatim>\<open>valueOf\<close> is not callable).
\<close>

fun Number :: "engine \<Rightarrow> jsval \<Rightarrow> jserror + number" where
  "Number J Undefined = Inr NaN"
| "Number J Null = Inr (Finite 0)"
| "Number J (Bool b) = Inr (if b then Finite 1 else Finite 0)"
| "Number J (Num n) = Inr n"
| "Number J (Str s) = Inr (StringToNumber J s)"
| "Number J v = (case ToString J v of Inl e \<Rightarrow> Inl e | Inr s \<Rightarrow> Inr (StringToNumber J s))"

definition Number_isNaN :: "number \<Rightarrow> bool" where
  "Number_isNaN n = (n = NaN)"

text \<open>\<^verbatim>\<open>String(e)\<close> of a thrown error: \<^verbatim>\<open>Error.prototype.toString\<close>.\<close>

fun String_e :: "jserror \<Rightarrow> string" where
  "String_e (JSError nm msg) =
     (if nm = [] then msg else if msg = [] then nm else nm @ '': '' @ msg)"

section \<open>The filter: \<^verbatim>\<open>buildFilter\<close> (lines 46 to 64)\<close>

datatype clause =
    Match string jsval   \<comment> \<open>\<^verbatim>\<open>{ key, match: { value } }\<close>\<close>
  | Range string number  \<comment> \<open>\<^verbatim>\<open>{ key, range: { gte } }\<close>\<close>

record qfilter =
  must :: "clause list"

record filter_args =
  tag :: jsval
  minImportance :: jsval
  docId :: jsval
  source :: jsval

text \<open>
  The four \<^verbatim>\<open>if\<close> statements push onto \<^verbatim>\<open>must\<close> in this order; \<open>None\<close> is the
  \<^verbatim>\<open>undefined\<close> returned for an empty list. \<^verbatim>\<open>Number(minImportance)\<close> is evaluated only
  under the truthiness guard and is the one expression that can throw.
\<close>

definition buildFilter :: "engine \<Rightarrow> filter_args \<Rightarrow> jserror + qfilter option" where
  "buildFilter J a =
     (let must0 = [];
          must1 = (if ToBoolean (tag a) then must0 @ [Match ''tags'' (tag a)] else must0)
      in case (if ToBoolean (minImportance a) then
                 (case Number J (minImportance a) of
                    Inl e \<Rightarrow> Inl e
                  | Inr num \<Rightarrow>
                      Inr (if \<not> Number_isNaN num then must1 @ [Range ''importance'' num]
                           else must1))
               else Inr must1) of
           Inl e \<Rightarrow> Inl e
         | Inr must2 \<Rightarrow>
             (let must3 = (if ToBoolean (docId a) then must2 @ [Match ''doc_id'' (docId a)]
                           else must2);
                  must4 = (if ToBoolean (source a) then must3 @ [Match ''source'' (source a)]
                           else must3)
              in Inr (if length must4 \<noteq> 0 then Some \<lparr>must = must4\<rparr> else None)))"

section \<open>Collaborators\<close>

text \<open>
  The embedding pipeline returns a tensor whose \<^verbatim>\<open>data\<close> holds the floats. The Qdrant
  client returns scored points whose \<^verbatim>\<open>id\<close> is a number or a string (the client's
  point-identifier type), and a listing whose \<^verbatim>\<open>collections\<close> may be missing (line 70
  reads it with \<^verbatim>\<open>?.\<close>). Each call either returns or throws.
\<close>

record tensor =
  data :: "number list"

datatype point_id = IdNumber number | IdString string

record scored_point =
  point_id :: point_id
  score :: number
  payload :: jsval

record collection =
  name :: string

record collections_info =
  collections :: "collection list option"

record search_params =
  vector :: "number list"
  limit :: number
  filter_p :: "qfilter option"
  with_payload :: bool
  with_vector :: bool

record env =
  embedder :: "jsval \<Rightarrow> jserror + tensor"
  qdrant_search :: "string \<Rightarrow> search_params \<Rightarrow> jserror + scored_point list"
  qdrant_getCollections :: "jserror + collections_info"
  COLLECTION :: string

text \<open>
  What a handler does besides answering, in order: the calls it makes to the two
  collaborators and what it writes with \<^verbatim>\<open>console.error\<close>.
\<close>

datatype event =
    EmbedderCall jsval
  | QdrantSearch string search_params
  | ConsoleError jserror

text \<open>\<^verbatim>\<open>String(h.id)\<close> of a point identifier.\<close>

fun String :: "engine \<Rightarrow> point_id \<Rightarrow> string" where
  "String J (IdNumber n) = NumberToString J n"
| "String J (IdString s) = s"

section \<open>Responses\<close>

record search_hit =
  hit_id :: string
  hit_score :: number
  hit_payload :: jsval

datatype json_body =
    HealthOk "string list option"   \<comment> \<open>\<^verbatim>\<open>{ ok: true, collections }\<close>\<close>
  | HealthError string              \<comment> \<open>\<^verbatim>\<open>{ ok: false, error }\<close>\<close>
  | ErrorBody string                \<comment> \<open>\<^verbatim>\<open>{ error }\<close>\<close>
  | SearchResult nat "search_hit list"  \<comment> \<open>\<^verbatim>\<open>{ count, hits }\<close>\<close>

record response =
  status :: nat
  body :: json_body

text \<open>\<^verbatim>\<open>res.json(b)\<close> answers with status 200, \<^verbatim>\<open>res.status(n).json(b)\<close> with \<open>n\<close>.\<close>

definition res_json :: "json_body \<Rightarrow> response" where
  "res_json b = \<lparr>status = 200, body = b\<rparr>"

definition res_status_json :: "nat \<Rightarrow> json_body \<Rightarrow> response" where
  "res_status_json n b = \<lparr>status = n, body = b\<rparr>"

section \<open>\<^verbatim>\<open>embed\<close> (lines 39 to 43)\<close>

definition embed :: "env \<Rightarrow> jsval \<Rightarrow> jserror + number list" where
  "embed E text_in =
     (case embedder E text_in of Inl e \<Rightarrow> Inl e | Inr out \<Rightarrow> Inr (data out))"

section \<open>\<^verbatim>\<open>GET /api/health\<close> (lines 67 to 74)\<close>

definition health_handler :: "env \<Rightarrow> response" where
  "health_handler E =
     (case qdrant_getCollections E of
        Inr info \<Rightarrow>
          res_json (HealthOk (case collections info of
                                None \<Rightarrow> None
                              | Some cs \<Rightarrow> Some (map (\<lambda>c. name c) cs)))
      | Inl e \<Rightarrow> res_status_json 500 (HealthError (String_e e)))"

section \<open>\<^verbatim>\<open>POST /api/search\<close> (lines 77 to 111)\<close>

text \<open>The \<^verbatim>\<open>catch\<close> block of lines 107 to 110, after the events \<open>evs\<close> of the \<^verbatim>\<open>try\<close>.\<close>

definition catch_block :: "jserror \<Rightarrow> event list \<Rightarrow> response \<times> event list" where
  "catch_block e evs = (res_status_json 500 (ErrorBody (String_e e)), evs @ [ConsoleError e])"

text \<open>
  The handler, given the request body. The destructuring default \<^verbatim>\<open>topK = 5\<close> applies
  to \<^verbatim>\<open>undefined\<close> only. The steps run in the order of the source: validate, embed,
  build the filter, evaluate \<^verbatim>\<open>Number(topK) || 5\<close>, search, answer; an exception of any
  step ends the \<^verbatim>\<open>try\<close> there.
\<close>

definition search_handler :: "engine \<Rightarrow> env \<Rightarrow> jsval \<Rightarrow> response \<times> event list" where
  "search_handler J E req_body =
     (let b = (if ToBoolean req_body then req_body else Obj []);
          query = Get b ''query'';
          topK = (if Get b ''topK'' = Undefined then Num (Finite 5) else Get b ''topK'');
          tag_v = Get b ''tag'';
          minImportance_v = Get b ''minImportance'';
          docId_v = Get b ''docId'';
          source_v = Get b ''source''
      in if \<not> ToBoolean query \<or> typeof query \<noteq> ''string'' then
           (res_status_json 400 (ErrorBody ''query (string) is required''), [])
         else
           (case embed E query of
              Inl e \<Rightarrow> catch_block e [EmbedderCall query]
            | Inr vec \<Rightarrow>
               (case buildFilter J \<lparr>tag = tag_v, minImportance = minImportance_v,
                                     docId = docId_v, source = source_v\<rparr> of
                  Inl e \<Rightarrow> catch_block e [EmbedderCall query]
                | Inr flt \<Rightarrow>
                   (case Number J topK of
                      Inl e \<Rightarrow> catch_block e [EmbedderCall query]
                    | Inr n \<Rightarrow>
                       (let params = \<lparr>vector = vec,
                                       limit = (if ToBoolean (Num n) then n else Finite 5),
                                       filter_p = flt,
                                       with_payload = True,
                                       with_vector = False\<rparr>;
                            evs = [EmbedderCall query, QdrantSearch (COLLECTION E) params]
                        in case qdrant_search E (COLLECTION E) params of
                             Inl e \<Rightarrow> catch_block e evs
                           | Inr result \<Rightarrow>
                               (res_json
                                  (SearchResult (length result)
                                     (map (\<lambda>h. \<lparr>hit_id = String J (point_id h),
                                                  hit_score = score h,
                                                  hit_payload = payload h\<rparr>) result)),
                                evs))))))"

section \<open>Vocabulary of the properties\<close>

text \<open>
  The field \<open>k\<close> of a request, read as line 79 reads it: from the body, or from
  \<^verbatim>\<open>{}\<close> when the body is falsy. A request is valid when its \<^verbatim>\<open>query\<close> is a non-empty
  text.
\<close>

definition request_field :: "jsval \<Rightarrow> string \<Rightarrow> jsval" where
  "request_field req_body k = Get (if ToBoolean req_body then req_body else Obj []) k"

definition valid_request :: "jsval \<Rightarrow> bool" where
  "valid_request req_body =
     (case request_field req_body ''query'' of Str s \<Rightarrow> s \<noteq> [] | _ \<Rightarrow> False)"

definition request_args :: "jsval \<Rightarrow> filter_args" where
  "request_args b =
     \<lparr>tag = request_field b ''tag'', minImportance = request_field b ''minImportance'',
      docId = request_field b ''docId'', source = request_field b ''source''\<rparr>"

text \<open>The clauses of a filter (none for \<^verbatim>\<open>undefined\<close>), and those on one stored attribute.\<close>

fun clause_key :: "clause \<Rightarrow> string" where
  "clause_key (Match k v) = k"
| "clause_key (Range k n) = k"

definition clauses :: "qfilter option \<Rightarrow> clause list" where
  "clauses flt = (case flt of None \<Rightarrow> [] | Some f \<Rightarrow> must f)"

definition keyed :: "string \<Rightarrow> qfilter option \<Rightarrow> clause list" where
  "keyed k flt = filter (\<lambda>c. clause_key c = k) (clauses flt)"

definition mk_filter :: "clause list \<Rightarrow> qfilter option" where
  "mk_filter cs = (if cs = [] then None else Some \<lparr>must = cs\<rparr>)"

text \<open>
  The value of \<^verbatim>\<open>n || 5\<close>, the search parameters of lines 92 to 96 and the hits of
  lines 101 to 105.
\<close>

definition limit_of :: "number \<Rightarrow> number" where
  "limit_of n = (if n = NaN \<or> n = Finite 0 \<or> n = NegZero then Finite 5 else n)"

definition params_of :: "number list \<Rightarrow> number \<Rightarrow> qfilter option \<Rightarrow> search_params" where
  "params_of vec n flt =
     \<lparr>vector = vec, limit = limit_of n, filter_p = flt, with_payload = True, with_vector = False\<rparr>"

definition hits_of :: "engine \<Rightarrow> scored_point list \<Rightarrow> search_hit list" where
  "hits_of J result =
     map (\<lambda>h. \<lparr>hit_id = String J (point_id h), hit_score = score h, hit_payload = payload h\<rparr>) result"

section \<open>A sample engine and sample collaborators\<close>

text \<open>
  The theorems below hold for every engine and every environment. Their closed instances
  are evaluated on this sample: an engine that knows the decimal notation of a few
  numbers (every other string reads as NaN), an embedder and a database that answer.
\<close>

definition demo_engine :: engine where
  "demo_engine =
     \<lparr>StringToNumber =
        (\<lambda>s. case map_of [('''', Finite 0), (''0'', Finite 0), (''2'', Finite 2),
                            (''3'', Finite 3), (''7'', Finite 7)] s of
                Some n \<Rightarrow> n | None \<Rightarrow> NaN),
      NumberToString =
        (\<lambda>n. case map_of [(Finite 7, ''7''), (Finite 42, ''42'')] n of
                Some s \<Rightarrow> s | None \<Rightarrow> ''NaN'')\<rparr>"

definition demo_points :: "scored_point list" where
  "demo_points =
     [\<lparr>point_id = IdNumber (Finite 42), score = Finite (9/10),
       payload = Obj [(''source'', Str ''youtube'')]\<rparr>,
      \<lparr>point_id = IdString ''a1b2'', score = Finite (1/2), payload = Null\<rparr>]"

definition demo_env :: env where
  "demo_env =
     \<lparr>embedder = (\<lambda>t. Inr \<lparr>data = [Finite (1/2), Finite (-1/2)]\<rparr>),
      qdrant_search = (\<lambda>c p. Inr demo_points),
      qdrant_getCollections = Inr \<lparr>collections = Some [\<lparr>name = ''youtube_rag''\<rparr>]\<rparr>,
      COLLECTION = ''youtube_rag''\<rparr>"

text \<open>The same environment with an embedder, a search or a listing that throws.\<close>

definition demo_error :: jserror where
  "demo_error = JSError ''Error'' ''connect ECONNREFUSED''"

definition demo_env_embed_fails :: env where
  "demo_env_embed_fails = demo_env\<lparr>embedder := (\<lambda>t. Inl demo_error)\<rparr>"

definition demo_env_search_fails :: env where
  "demo_env_search_fails = demo_env\<lparr>qdrant_search := (\<lambda>c p. Inl demo_error)\<rparr>"

definition demo_env_listing_fails :: env where
  "demo_env_listing_fails = demo_env\<lparr>qdrant_getCollections := Inl demo_error\<rparr>"

section \<open>Facts about the model\<close>

lemma buildFilter_eq:
  "buildFilter J a =
     (if ToBoolean (minImportance a) then
        (case Number J (minImportance a) of
           Inl e \<Rightarrow> Inl e
         | Inr n \<Rightarrow>
             Inr (mk_filter
               ((if ToBoolean (tag a) then [Match ''tags'' (tag a)] else []) @
                (if n \<noteq> NaN then [Range ''importance'' n] else []) @
                (if ToBoolean (docId a) then [Match ''doc_id'' (docId a)] else []) @
                (if ToBoolean (source a) then [Match ''source'' (source a)] else []))))
      else
        Inr (mk_filter
               ((if ToBoolean (tag a) then [Match ''tags'' (tag a)] else []) @
                (if ToBoolean (docId a) then [Match ''doc_id'' (docId a)] else []) @
                (if ToBoolean (source a) then [Match ''source'' (source a)] else []))))"
  by (simp add: buildFilter_def mk_filter_def Number_isNaN_def Let_def split: sum.splits)

lemma clauses_mk_filter: "clauses (mk_filter cs) = cs"
  by (simp add: clauses_def mk_filter_def)

lemma keyed_mk_filter: "keyed k (mk_filter cs) = filter (\<lambda>c. clause_key c = k) cs"
  by (simp add: keyed_def clauses_mk_filter)

lemma buildFilter_absent:
  "tag a = Undefined \<Longrightarrow> minImportance a = Undefined \<Longrightarrow> docId a = Undefined \<Longrightarrow>
   source a = Undefined \<Longrightarrow> buildFilter J a = Inr None"
  by (simp add: buildFilter_eq mk_filter_def)

lemma valid_request_iff:
  "valid_request b \<longleftrightarrow>
     \<not> (\<not> ToBoolean (request_field b ''query'') \<or> typeof (request_field b ''query'') \<noteq> ''string'')"
  by (cases "request_field b ''query''") (simp_all add: valid_request_def)

lemma search_handler_invalid:
  "\<not> valid_request b \<Longrightarrow>
   search_handler J E b = (\<lparr>status = 400, body = ErrorBody ''query (string) is required''\<rparr>, [])"
  unfolding valid_request_iff
  by (simp add: search_handler_def request_field_def res_status_json_def Let_def)

lemma search_handler_valid:
  assumes "valid_request b"
  shows "search_handler J E b =
     (case embedder E (request_field b ''query'') of
        Inl e \<Rightarrow> catch_block e [EmbedderCall (request_field b ''query'')]
      | Inr out \<Rightarrow>
         (case buildFilter J (request_args b) of
            Inl e \<Rightarrow> catch_block e [EmbedderCall (request_field b ''query'')]
          | Inr flt \<Rightarrow>
             (case Number J (request_field b ''topK'') of
                Inl e \<Rightarrow> catch_block e [EmbedderCall (request_field b ''query'')]
              | Inr n \<Rightarrow>
                 (case qdrant_search E (COLLECTION E) (params_of (data out) n flt) of
                    Inl e \<Rightarrow>
                      catch_block e [EmbedderCall (request_field b ''query''),
                                     QdrantSearch (COLLECTION E) (params_of (data out) n flt)]
                  | Inr result \<Rightarrow>
                      (\<lparr>status = 200, body = SearchResult (length result) (hits_of J result)\<rparr>,
                       [EmbedderCall (request_field b ''query''),
                        QdrantSearch (COLLECTION E) (params_of (data out) n flt)])))))"
proof -
  have v: "\<not> (\<not> ToBoolean (request_field b ''query'') \<or> typeof (request_field b ''query'') \<noteq> ''string'')"
    using assms valid_request_iff by blast
  show ?thesis
  proof (cases "request_field b ''topK'' = Undefined")
    case True
    with v show ?thesis
      by (simp add: search_handler_def request_field_def request_args_def embed_def
          params_of_def hits_of_def limit_of_def res_json_def Let_def split: sum.splits)
  next
    case False
    with v show ?thesis
      by (simp add: search_handler_def request_field_def request_args_def embed_def
          params_of_def hits_of_def limit_of_def res_json_def Let_def split: sum.splits)
  qed
qed

lemma search_events_valid:
  assumes "valid_request b"
    and "QdrantSearch c p \<in> set (snd (search_handler J E b))"
  shows "\<exists>out flt n. embedder E (request_field b ''query'') = Inr out \<and>
            buildFilter J (request_args b) = Inr flt \<and>
            Number J (request_field b ''topK'') = Inr n \<and>
            c = COLLECTION E \<and> p = params_of (data out) n flt"
  using assms(2) unfolding search_handler_valid [OF assms(1)]
  by (auto simp: catch_block_def split: sum.splits)

lemma search_events:
  assumes "QdrantSearch c p \<in> set (snd (search_handler J E b))"
  shows "valid_request b \<and>
         (\<exists>out flt n. embedder E (request_field b ''query'') = Inr out \<and>
            buildFilter J (request_args b) = Inr flt \<and>
            Number J (request_field b ''topK'') = Inr n \<and>
            c = COLLECTION E \<and> p = params_of (data out) n flt)"
proof (cases "valid_request b")
  case True
  with assms show ?thesis using search_events_valid by blast
next
  case False
  with assms show ?thesis by (simp add: search_handler_invalid)
qed

lemma search_invoked:
  assumes "valid_request b"
    and "embedder E (request_field b ''query'') = Inr out"
    and "buildFilter J (request_args b) = Inr flt"
    and "Number J (request_field b ''topK'') = Inr n"
  shows "QdrantSearch (COLLECTION E) (params_of (data out) n flt) \<in> set (snd (search_handler J E b))"
  unfolding search_handler_valid [OF assms(1)] using assms(2-4)
  by (auto simp: catch_block_def split: sum.splits)

section \<open>The range clause of \<^verbatim>\<open>minImportance\<close>\<close>

text \<open>
  C1 as stated fails. \<^verbatim>\<open>minImportance = 0\<close> coerces to the number 0, which is not NaN, yet
  the truthiness guard of line 51 skips it: no range clause is built, and with no other
  field there is no filter at all.
\<close>

theorem C1_counterexample:
  "Number demo_engine (Num (Finite 0)) = Inr (Finite 0) \<and>
   \<not> Number_isNaN (Finite 0) \<and>
   buildFilter demo_engine
     \<lparr>tag = Undefined, minImportance = Num (Finite 0), docId = Undefined, source = Undefined\<rparr>
   = Inr None"
  by (simp add: buildFilter_def Number_isNaN_def)

text \<open>
  C1 (amended): \<^verbatim>\<open>minImportance\<close> contributes exactly one range clause, keyed
  \<^verbatim>\<open>importance\<close> with \<^verbatim>\<open>gte\<close> equal to its numeric coercion, if and only if it is truthy and
  the coercion is not NaN; otherwise it is dropped, and the filter is the one built with
  \<^verbatim>\<open>minImportance\<close> absent. This is stated for a coercion that returns.
  \<^verbatim>\<open>minImportance = 3\<close> gives exactly one range clause, with lower bound 3.
\<close>

theorem minImportance_range_clause:
  "(\<forall>n. Number J (minImportance a) = Inr n \<longrightarrow>
      (\<exists>flt. buildFilter J a = Inr flt \<and>
         keyed ''importance'' flt =
           (if ToBoolean (minImportance a) \<and> \<not> Number_isNaN n
            then [Range ''importance'' n] else [])) \<and>
      (\<not> ToBoolean (minImportance a) \<or> Number_isNaN n \<longrightarrow>
         buildFilter J a = buildFilter J (a\<lparr>minImportance := Undefined\<rparr>))) \<and>
   (\<exists>flt. buildFilter J (a\<lparr>minImportance := Num (Finite 3)\<rparr>) = Inr flt \<and>
      keyed ''importance'' flt = [Range ''importance'' (Finite 3)])"
proof (intro conjI allI impI)
  fix n assume n: "Number J (minImportance a) = Inr n"
  show "\<exists>flt. buildFilter J a = Inr flt \<and>
         keyed ''importance'' flt =
           (if ToBoolean (minImportance a) \<and> \<not> Number_isNaN n
            then [Range ''importance'' n] else [])"
    using n by (simp add: buildFilter_eq keyed_mk_filter Number_isNaN_def)
  assume "\<not> ToBoolean (minImportance a) \<or> Number_isNaN n"
  then show "buildFilter J a = buildFilter J (a\<lparr>minImportance := Undefined\<rparr>)"
    using n by (auto simp: buildFilter_eq Number_isNaN_def)
next
  show "\<exists>flt. buildFilter J (a\<lparr>minImportance := Num (Finite 3)\<rparr>) = Inr flt \<and>
      keyed ''importance'' flt = [Range ''importance'' (Finite 3)]"
    by (simp add: buildFilter_eq keyed_mk_filter)
qed

text \<open>An instance: the string \<^verbatim>\<open>abc\<close> is dropped, the number 3 is kept.\<close>

theorem minImportance_range_clause_witness:
  "buildFilter demo_engine
     \<lparr>tag = Str ''pets'', minImportance = Str ''abc'', docId = Undefined, source = Undefined\<rparr>
   = buildFilter demo_engine
     \<lparr>tag = Str ''pets'', minImportance = Undefined, docId = Undefined, source = Undefined\<rparr> \<and>
   (\<exists>flt. buildFilter demo_engine
       \<lparr>tag = Str ''pets'', minImportance = Num (Finite 3), docId = Undefined, source = Undefined\<rparr>
     = Inr flt \<and> keyed ''importance'' flt = [Range ''importance'' (Finite 3)])"
  using minImportance_range_clause [of demo_engine
      "\<lparr>tag = Str ''pets'', minImportance = Str ''abc'', docId = Undefined, source = Undefined\<rparr>"]
  by (simp add: demo_engine_def Number_isNaN_def)

section \<open>The limit of the search\<close>

text \<open>
  C2 as stated fails. \<^verbatim>\<open>topK = 0\<close> coerces to the number 0, and \<^verbatim>\<open>0 || 5\<close> is 5: the search
  is called with limit 5, so a zero is not passed through.
\<close>

theorem C2_counterexample:
  "Number demo_engine (Num (Finite 0)) = Inr (Finite 0) \<and>
   snd (search_handler demo_engine demo_env
          (Obj [(''query'', Str ''cats''), (''topK'', Num (Finite 0))])) =
     [EmbedderCall (Str ''cats''),
      QdrantSearch ''youtube_rag''
        \<lparr>vector = [Finite (1/2), Finite (-1/2)], limit = Finite 5, filter_p = None,
         with_payload = True, with_vector = False\<rparr>]"
  by (simp add: search_handler_def demo_env_def embed_def buildFilter_def res_json_def Let_def)

text \<open>
  C2 (amended): the limit of every search call is the numeric coercion of \<^verbatim>\<open>topK\<close>, or 5
  when that coercion is NaN (\<^verbatim>\<open>topK\<close> missing or not numeric) or zero; in particular it is 5
  when \<^verbatim>\<open>topK\<close> is missing, and every other number, a negative one too, is passed through
  as it is. A valid request whose embedding, filter and coercion succeed does reach the
  search, with that limit.
\<close>

theorem topK_limit:
  "(\<forall>c p. QdrantSearch c p \<in> set (snd (search_handler J E b)) \<longrightarrow>
      (\<exists>n. Number J (request_field b ''topK'') = Inr n \<and>
         limit p = (if n = NaN \<or> n = Finite 0 \<or> n = NegZero then Finite 5 else n)) \<and>
      (request_field b ''topK'' = Undefined \<longrightarrow> limit p = Finite 5)) \<and>
   (\<forall>out flt n. valid_request b \<and> embedder E (request_field b ''query'') = Inr out \<and>
      buildFilter J (request_args b) = Inr flt \<and>
      Number J (request_field b ''topK'') = Inr n \<longrightarrow>
      (\<exists>p. QdrantSearch (COLLECTION E) p \<in> set (snd (search_handler J E b)) \<and>
         limit p = (if n = NaN \<or> n = Finite 0 \<or> n = NegZero then Finite 5 else n)))"
proof (intro conjI allI impI)
  fix c p assume ev: "QdrantSearch c p \<in> set (snd (search_handler J E b))"
  from search_events [OF ev] obtain out :: tensor and flt n where
    n: "Number J (request_field b ''topK'') = Inr n" and p: "p = params_of (data out) n flt"
    by blast
  from n p show "\<exists>n. Number J (request_field b ''topK'') = Inr n \<and>
         limit p = (if n = NaN \<or> n = Finite 0 \<or> n = NegZero then Finite 5 else n)"
    by (simp add: params_of_def limit_of_def)
  assume "request_field b ''topK'' = Undefined"
  with n p show "limit p = Finite 5"
    by (auto simp: params_of_def limit_of_def)
next
  fix out flt n
  assume a: "valid_request b \<and> embedder E (request_field b ''query'') = Inr out \<and>
      buildFilter J (request_args b) = Inr flt \<and>
      Number J (request_field b ''topK'') = Inr n"
  then have "QdrantSearch (COLLECTION E) (params_of (data out) n flt)
      \<in> set (snd (search_handler J E b))"
    using search_invoked by blast
  moreover have "limit (params_of (data out) n flt) =
      (if n = NaN \<or> n = Finite 0 \<or> n = NegZero then Finite 5 else n)"
    by (simp add: params_of_def limit_of_def)
  ultimately show "\<exists>p. QdrantSearch (COLLECTION E) p \<in> set (snd (search_handler J E b)) \<and>
         limit p = (if n = NaN \<or> n = Finite 0 \<or> n = NegZero then Finite 5 else n)"
    by blast
qed

text \<open>An instance: \<^verbatim>\<open>topK = -3\<close> reaches the search as the limit -3.\<close>

theorem topK_limit_witness:
  "(\<exists>p. QdrantSearch (COLLECTION demo_env) p \<in>
        set (snd (search_handler demo_engine demo_env
                    (Obj [(''query'', Str ''cats''), (''topK'', Num (Finite (-3)))]))) \<and>
      limit p = Finite (-3))"
  using topK_limit [of demo_engine demo_env
      "Obj [(''query'', Str ''cats''), (''topK'', Num (Finite (-3)))]"]
  by (simp add: valid_request_def request_field_def request_args_def demo_env_def buildFilter_def)

section \<open>Invalid requests\<close>

text \<open>
  C3: when \<^verbatim>\<open>query\<close> is missing, empty or not a text, the answer has status 400 and the
  handler has made no call: neither the embedder nor the database is invoked.
\<close>

theorem invalid_query_400:
  "\<not> valid_request b \<Longrightarrow>
   status (fst (search_handler J E b)) = 400 \<and>
   body (fst (search_handler J E b)) = ErrorBody ''query (string) is required'' \<and>
   snd (search_handler J E b) = []"
  by (simp add: search_handler_invalid)

text \<open>An instance: a numeric \<^verbatim>\<open>query\<close>.\<close>

theorem invalid_query_400_witness:
  "\<not> valid_request (Obj [(''query'', Num (Finite 7)), (''tag'', Str ''pets'')]) \<and>
   status (fst (search_handler demo_engine demo_env
      (Obj [(''query'', Num (Finite 7)), (''tag'', Str ''pets'')]))) = 400 \<and>
   snd (search_handler demo_engine demo_env
      (Obj [(''query'', Num (Finite 7)), (''tag'', Str ''pets'')])) = []"
proof -
  have h: "\<not> valid_request (Obj [(''query'', Num (Finite 7)), (''tag'', Str ''pets'')])"
    by (simp add: valid_request_def request_field_def)
  from invalid_query_400 [OF h, of demo_engine demo_env] h show ?thesis by simp
qed

section \<open>The equality clauses\<close>




section \<open>Requests without optional fields\<close>

text \<open>
  C5: for a valid request with none of \<^verbatim>\<open>tag\<close>, \<^verbatim>\<open>minImportance\<close>, \<^verbatim>\<open>docId\<close>, \<^verbatim>\<open>source\<close>,
  every search call has the filter \<^verbatim>\<open>undefined\<close>, and the limit 5 when \<^verbatim>\<open>topK\<close> is missing
  too; and when the embedding succeeds, such a request without \<^verbatim>\<open>topK\<close> does call the
  search, with the embedded vector, limit 5 and no filter.
\<close>

theorem no_fields_no_filter:
  assumes "valid_request b"
    and "request_field b ''tag'' = Undefined"
    and "request_field b ''minImportance'' = Undefined"
    and "request_field b ''docId'' = Undefined"
    and "request_field b ''source'' = Undefined"
  shows "(\<forall>c p. QdrantSearch c p \<in> set (snd (search_handler J E b)) \<longrightarrow>
            filter_p p = None \<and> (request_field b ''topK'' = Undefined \<longrightarrow> limit p = Finite 5)) \<and>
         (\<forall>out. embedder E (request_field b ''query'') = Inr out \<and>
              request_field b ''topK'' = Undefined \<longrightarrow>
            QdrantSearch (COLLECTION E)
                 \<lparr>vector = data out, limit = Finite 5, filter_p = None,
                  with_payload = True, with_vector = False\<rparr>
              \<in> set (snd (search_handler J E b)))"
proof -
  have f: "buildFilter J (request_args b) = Inr None"
    using assms(2-5) by (intro buildFilter_absent) (simp_all add: request_args_def)
  show ?thesis
  proof (intro conjI allI impI)
    fix c p assume ev: "QdrantSearch c p \<in> set (snd (search_handler J E b))"
    from search_events [OF ev] obtain out :: tensor and flt n where
      n: "Number J (request_field b ''topK'') = Inr n"
      and flt: "buildFilter J (request_args b) = Inr flt"
      and p: "p = params_of (data out) n flt"
      by blast
    from f flt p show "filter_p p = None" by (simp add: params_of_def)
    assume "request_field b ''topK'' = Undefined"
    with n p show "limit p = Finite 5" by (auto simp: params_of_def limit_of_def)
  next
    fix out
    assume "embedder E (request_field b ''query'') = Inr out \<and>
      request_field b ''topK'' = Undefined"
    then have e: "embedder E (request_field b ''query'') = Inr out"
      and n: "Number J (request_field b ''topK'') = Inr NaN" by simp_all
    from search_invoked [OF assms(1) e f n]
    show "QdrantSearch (COLLECTION E)
                 \<lparr>vector = data out, limit = Finite 5, filter_p = None,
                  with_payload = True, with_vector = False\<rparr>
              \<in> set (snd (search_handler J E b))"
      by (simp add: params_of_def limit_of_def)
  qed
qed

text \<open>An instance: the request \<^verbatim>\<open>{"query": "cats"}\<close>.\<close>

theorem no_fields_no_filter_witness:
  "valid_request (Obj [(''query'', Str ''cats'')]) \<and>
   QdrantSearch ''youtube_rag''
        \<lparr>vector = [Finite (1/2), Finite (-1/2)], limit = Finite 5, filter_p = None,
         with_payload = True, with_vector = False\<rparr>
     \<in> set (snd (search_handler demo_engine demo_env (Obj [(''query'', Str ''cats'')])))"
proof -
  have v: "valid_request (Obj [(''query'', Str ''cats'')])"
    by (simp add: valid_request_def request_field_def)
  have a: "request_field (Obj [(''query'', Str ''cats'')]) ''tag'' = Undefined"
    "request_field (Obj [(''query'', Str ''cats'')]) ''minImportance'' = Undefined"
    "request_field (Obj [(''query'', Str ''cats'')]) ''docId'' = Undefined"
    "request_field (Obj [(''query'', Str ''cats'')]) ''source'' = Undefined"
    by (simp_all add: request_field_def)
  from no_fields_no_filter [OF v a, of demo_engine demo_env] v show ?thesis
    by (simp add: request_field_def demo_env_def)
qed

section \<open>The shape of the answer\<close>

text \<open>
  C6: for a valid request whose embedding, filter and coercion of \<^verbatim>\<open>topK\<close> return and
  whose search returns the matches \<open>result\<close>, the handler answers with status 200, the
  count is the number of matches and is the length of the hit list, and each match is
  mapped, in order, to a hit with the identifier as text, the score and the payload
  unchanged; the handler has called the embedder once and the search once. In every
  search answer of the handler the count is the length of the hit list.
\<close>

theorem response_shape:
  assumes "valid_request b"
    and "embedder E (request_field b ''query'') = Inr out"
    and "buildFilter J (request_args b) = Inr flt"
    and "Number J (request_field b ''topK'') = Inr n"
    and "qdrant_search E (COLLECTION E)
           \<lparr>vector = data out,
            limit = (if n = NaN \<or> n = Finite 0 \<or> n = NegZero then Finite 5 else n),
            filter_p = flt, with_payload = True, with_vector = False\<rparr> = Inr result"
  shows "search_handler J E b =
           (\<lparr>status = 200,
             body = SearchResult (length result)
               (map (\<lambda>h. \<lparr>hit_id = String J (point_id h), hit_score = score h,
                            hit_payload = payload h\<rparr>) result)\<rparr>,
            [EmbedderCall (request_field b ''query''),
             QdrantSearch (COLLECTION E)
               \<lparr>vector = data out,
                limit = (if n = NaN \<or> n = Finite 0 \<or> n = NegZero then Finite 5 else n),
                filter_p = flt, with_payload = True, with_vector = False\<rparr>]) \<and>
         length (map (\<lambda>h. \<lparr>hit_id = String J (point_id h), hit_score = score h,
                              hit_payload = payload h\<rparr>) result) = length result \<and>
         (\<forall>cnt hs. body (fst (search_handler J E b)) = SearchResult cnt hs \<longrightarrow>
            cnt = length hs)"
proof -
  have r: "qdrant_search E (COLLECTION E) (params_of (data out) n flt) = Inr result"
    using assms(5) by (simp add: params_of_def limit_of_def)
  have h: "search_handler J E b =
     (\<lparr>status = 200, body = SearchResult (length result) (hits_of J result)\<rparr>,
      [EmbedderCall (request_field b ''query''),
       QdrantSearch (COLLECTION E) (params_of (data out) n flt)])"
    unfolding search_handler_valid [OF assms(1)] using assms(2-4) r by simp
  show ?thesis
    by (simp add: h hits_of_def params_of_def limit_of_def)
qed

text \<open>
  An instance: the text \<^verbatim>\<open>2\<close> as \<^verbatim>\<open>topK\<close>, a numeric and a textual identifier.
\<close>

theorem response_shape_witness:
  "search_handler demo_engine demo_env
     (Obj [(''query'', Str ''cats''), (''topK'', Str ''2'')]) =
     (\<lparr>status = 200,
       body = SearchResult 2
         [\<lparr>hit_id = ''42'', hit_score = Finite (9/10),
           hit_payload = Obj [(''source'', Str ''youtube'')]\<rparr>,
          \<lparr>hit_id = ''a1b2'', hit_score = Finite (1/2), hit_payload = Null\<rparr>]\<rparr>,
      [EmbedderCall (Str ''cats''),
       QdrantSearch ''youtube_rag''
         \<lparr>vector = [Finite (1/2), Finite (-1/2)], limit = Finite 2, filter_p = None,
          with_payload = True, with_vector = False\<rparr>])"
proof -
  let ?b = "Obj [(''query'', Str ''cats''), (''topK'', Str ''2'')]"
  have v: "valid_request ?b"
    by (simp add: valid_request_def request_field_def)
  have e: "embedder demo_env (request_field ?b ''query'') =
      Inr \<lparr>data = [Finite (1/2), Finite (-1/2)]\<rparr>"
    by (simp add: demo_env_def)
  have f: "buildFilter demo_engine (request_args ?b) = Inr None"
    by (simp add: buildFilter_def request_args_def request_field_def)
  have n: "Number demo_engine (request_field ?b ''topK'') = Inr (Finite 2)"
    by (simp add: request_field_def demo_engine_def)
  have r: "qdrant_search demo_env (COLLECTION demo_env)
      \<lparr>vector = data \<lparr>data = [Finite (1/2), Finite (-1/2)]\<rparr>,
       limit = (if Finite 2 = NaN \<or> Finite 2 = Finite 0 \<or> Finite 2 = NegZero
                then Finite 5 else Finite 2),
       filter_p = None, with_payload = True, with_vector = False\<rparr> = Inr demo_points"
    by (simp add: demo_env_def)
  from response_shape [OF v e f n r]
  have "search_handler demo_engine demo_env ?b =
      (\<lparr>status = 200,
        body = SearchResult (length demo_points)
          (map (\<lambda>h. \<lparr>hit_id = String demo_engine (point_id h), hit_score = score h,
                       hit_payload = payload h\<rparr>) demo_points)\<rparr>,
       [EmbedderCall (request_field ?b ''query''),
        QdrantSearch (COLLECTION demo_env)
          \<lparr>vector = data \<lparr>data = [Finite (1/2), Finite (-1/2)]\<rparr>,
           limit = (if Finite 2 = NaN \<or> Finite 2 = Finite 0 \<or> Finite 2 = NegZero
                    then Finite 5 else Finite 2),
           filter_p = None, with_payload = True, with_vector = False\<rparr>])"
    by blast
  then show ?thesis
    by (simp add: demo_points_def demo_engine_def demo_env_def request_field_def)
qed

section \<open>Failures of the collaborators\<close>

text \<open>
  C7: for a valid request, an exception of the embedder or of the search is answered
  with status 500 and the stringified error; the failing call was made once, nothing
  follows it but the log entry, and the answer carries no hits.
\<close>

theorem upstream_failure_500:
  assumes "valid_request b"
  shows "(\<forall>e. embedder E (request_field b ''query'') = Inl e \<longrightarrow>
            search_handler J E b =
              (\<lparr>status = 500, body = ErrorBody (String_e e)\<rparr>,
               [EmbedderCall (request_field b ''query''), ConsoleError e])) \<and>
         (\<forall>c p e. QdrantSearch c p \<in> set (snd (search_handler J E b)) \<and>
              qdrant_search E c p = Inl e \<longrightarrow>
            search_handler J E b =
              (\<lparr>status = 500, body = ErrorBody (String_e e)\<rparr>,
               [EmbedderCall (request_field b ''query''), QdrantSearch c p, ConsoleError e]))"
proof (intro conjI allI impI)
  fix e assume "embedder E (request_field b ''query'') = Inl e"
  then show "search_handler J E b =
              (\<lparr>status = 500, body = ErrorBody (String_e e)\<rparr>,
               [EmbedderCall (request_field b ''query''), ConsoleError e])"
    unfolding search_handler_valid [OF assms]
    by (simp add: catch_block_def res_status_json_def)
next
  fix c p e
  assume a: "QdrantSearch c p \<in> set (snd (search_handler J E b)) \<and>
              qdrant_search E c p = Inl e"
  then have ev: "QdrantSearch c p \<in> set (snd (search_handler J E b))"
    and r: "qdrant_search E c p = Inl e" by simp_all
  from search_events [OF ev] obtain out :: tensor and flt n where
    e: "embedder E (request_field b ''query'') = Inr out"
    and f: "buildFilter J (request_args b) = Inr flt"
    and n: "Number J (request_field b ''topK'') = Inr n"
    and c: "c = COLLECTION E" and p: "p = params_of (data out) n flt"
    by blast
  show "search_handler J E b =
              (\<lparr>status = 500, body = ErrorBody (String_e e)\<rparr>,
               [EmbedderCall (request_field b ''query''), QdrantSearch c p, ConsoleError e])"
    unfolding search_handler_valid [OF assms] using e f n r c p
    by (simp add: catch_block_def res_status_json_def)
qed

text \<open>Two instances: an embedder that throws, a search that throws.\<close>

theorem upstream_failure_500_witness:
  "valid_request (Obj [(''query'', Str ''cats'')]) \<and>
   search_handler demo_engine demo_env_embed_fails (Obj [(''query'', Str ''cats'')]) =
     (\<lparr>status = 500, body = ErrorBody ''Error: connect ECONNREFUSED''\<rparr>,
      [EmbedderCall (Str ''cats''), ConsoleError demo_error]) \<and>
   search_handler demo_engine demo_env_search_fails (Obj [(''query'', Str ''cats'')]) =
     (\<lparr>status = 500, body = ErrorBody ''Error: connect ECONNREFUSED''\<rparr>,
      [EmbedderCall (Str ''cats''),
       QdrantSearch ''youtube_rag''
         \<lparr>vector = [Finite (1/2), Finite (-1/2)], limit = Finite 5, filter_p = None,
          with_payload = True, with_vector = False\<rparr>,
       ConsoleError demo_error])"
proof -
  let ?b = "Obj [(''query'', Str ''cats'')]"
  let ?p = "\<lparr>vector = [Finite (1/2), Finite (-1/2)], limit = Finite 5, filter_p = None,
          with_payload = True, with_vector = False\<rparr>"
  have v: "valid_request ?b"
    by (simp add: valid_request_def request_field_def)
  have e: "embedder demo_env_embed_fails (request_field ?b ''query'') = Inl demo_error"
    by (simp add: demo_env_embed_fails_def)
  have ev: "QdrantSearch ''youtube_rag'' ?p
      \<in> set (snd (search_handler demo_engine demo_env_search_fails ?b))"
    by (simp add: search_handler_def demo_env_search_fails_def demo_env_def embed_def
        buildFilter_def catch_block_def Let_def)
  have r: "qdrant_search demo_env_search_fails ''youtube_rag'' ?p = Inl demo_error"
    by (simp add: demo_env_search_fails_def)
  from upstream_failure_500 [OF v, of demo_env_embed_fails demo_engine] e
  have 1: "search_handler demo_engine demo_env_embed_fails ?b =
     (\<lparr>status = 500, body = ErrorBody (String_e demo_error)\<rparr>,
      [EmbedderCall (request_field ?b ''query''), ConsoleError demo_error])"
    by blast
  from upstream_failure_500 [OF v, of demo_env_search_fails demo_engine] ev r
  have 2: "search_handler demo_engine demo_env_search_fails ?b =
     (\<lparr>status = 500, body = ErrorBody (String_e demo_error)\<rparr>,
      [EmbedderCall (request_field ?b ''query''), QdrantSearch ''youtube_rag'' ?p,
       ConsoleError demo_error])"
    by blast
  have s: "String_e demo_error = ''Error: connect ECONNREFUSED''"
    by (simp add: demo_error_def)
  have q: "request_field ?b ''query'' = Str ''cats''"
    by (simp add: request_field_def)
  from v 1 2 show ?thesis unfolding s q by simp
qed

section \<open>The health check\<close>

text \<open>
  C8: when the listing of collections throws, the health answer has status 500 and the
  body \<^verbatim>\<open>{ ok: false, error }\<close> with the stringified error; when it returns, the answer is
  \<^verbatim>\<open>{ ok: true, collections }\<close> with the names of the listed collections.
\<close>

theorem health_response:
  "(\<forall>e. qdrant_getCollections E = Inl e \<longrightarrow>
      health_handler E = \<lparr>status = 500, body = HealthError (String_e e)\<rparr>) \<and>
   (\<forall>info. qdrant_getCollections E = Inr info \<longrightarrow>
      health_handler E =
        \<lparr>status = 200, body = HealthOk (map_option (map name) (collections info))\<rparr>) \<and>
   (\<forall>cs. qdrant_getCollections E = Inr \<lparr>collections = Some cs\<rparr> \<longrightarrow>
      health_handler E = \<lparr>status = 200, body = HealthOk (Some (map name cs))\<rparr>)"
  by (auto simp: health_handler_def res_json_def res_status_json_def split: option.splits)

text \<open>An instance of each case.\<close>

theorem health_response_witness:
  "health_handler demo_env_listing_fails =
     \<lparr>status = 500, body = HealthError ''Error: connect ECONNREFUSED''\<rparr> \<and>
   health_handler demo_env = \<lparr>status = 200, body = HealthOk (Some [''youtube_rag''])\<rparr>"
  using health_response [of demo_env_listing_fails] health_response [of demo_env]
  by (simp add: demo_env_listing_fails_def demo_env_def demo_error_def)

section \<open>A request without a body\<close>

text \<open>
  C9: a body that is \<^verbatim>\<open>undefined\<close> or \<^verbatim>\<open>null\<close> is handled as \<^verbatim>\<open>{}\<close>: the answer is the 400
  of a missing \<^verbatim>\<open>query\<close>, not the 500 of an exception, and no call is made.
\<close>

theorem absent_body_400:
  "search_handler J E Undefined = search_handler J E (Obj []) \<and>
   search_handler J E Null = search_handler J E (Obj []) \<and>
   search_handler J E (Obj []) =
     (\<lparr>status = 400, body = ErrorBody ''query (string) is required''\<rparr>, [])"
  by (simp add: search_handler_def res_status_json_def Let_def)

text \<open>An instance, on the sample environment.\<close>

theorem absent_body_400_witness:
  "search_handler demo_engine demo_env Undefined =
     (\<lparr>status = 400, body = ErrorBody ''query (string) is required''\<rparr>, []) \<and>
   search_handler demo_engine demo_env Null =
     (\<lparr>status = 400, body = ErrorBody ''query (string) is required''\<rparr>, [])"
  using absent_body_400 [of demo_engine demo_env] by simp

section \<open>Empty strings\<close>

text \<open>
  C10: a \<^verbatim>\<open>tag\<close>, \<^verbatim>\<open>docId\<close> or \<^verbatim>\<open>source\<close> equal to the empty string gives the filter that
  is built with that field absent.
\<close>

theorem empty_string_no_clause:
  "buildFilter J (a\<lparr>tag := Str []\<rparr>) = buildFilter J (a\<lparr>tag := Undefined\<rparr>) \<and>
   buildFilter J (a\<lparr>docId := Str []\<rparr>) = buildFilter J (a\<lparr>docId := Undefined\<rparr>) \<and>
   buildFilter J (a\<lparr>source := Str []\<rparr>) = buildFilter J (a\<lparr>source := Undefined\<rparr>)"
  by (simp add: buildFilter_eq split: sum.splits)

text \<open>An instance: an empty \<^verbatim>\<open>tag\<close> beside a lower bound and a document.\<close>

theorem empty_string_no_clause_witness:
  "buildFilter demo_engine
     \<lparr>tag = Str [], minImportance = Num (Finite 2), docId = Str ''v1'', source = Undefined\<rparr> =
   Inr (Some \<lparr>must = [Range ''importance'' (Finite 2), Match ''doc_id'' (Str ''v1'')]\<rparr>)"
  using empty_string_no_clause [of demo_engine
      "\<lparr>tag = Null, minImportance = Num (Finite 2), docId = Str ''v1'', source = Undefined\<rparr>"]
  by (simp add: buildFilter_def Number_isNaN_def)

end
